theory Spec2Isabelle
  imports Complex_Main "HOL-Library.Char_ord" "HOL-Library.List_Lexorder"
    "HOL-Library.Product_Lexorder"
begin

section \<open>Khathabook: a multi-user expense tracker over two SQLite tables\<close>

text \<open>
  The program is one Python script, \<^verbatim>\<open>Khathabook.py\<close>. It keeps a module-level
  SQLite connection with two tables, \<^verbatim>\<open>users\<close> and \<^verbatim>\<open>transactions\<close>, five functions
  over them, and a page script that calls the functions and aggregates the current
  user's rows with pandas.

  The embedding makes the connection an explicit value \<open>db\<close> that every operation
  takes and returns. A table is the list of its rows in insertion order, which is the
  order \<^verbatim>\<open>SELECT *\<close> yields on a rowid table that is never deleted from. A TEXT column
  is a \<open>string\<close> and an INTEGER column a \<open>nat\<close>.

  The \<^verbatim>\<open>category\<close> column is a \<open>string option\<close>: the editor adds a row with empty
  cells, nothing makes the user pick a category, and the INSERT stores the empty cell
  as NULL, which \<^verbatim>\<open>groupby\<close> later treats unlike any text. The other cells are not
  NULL in the model.

  The REAL column \<^verbatim>\<open>amount\<close> is a \<open>real\<close>, the number the stored double denotes.
  pandas adds doubles with rounding, and in an order of its own, so the two sums the
  page takes are parameters of the model: \<open>series_sum\<close> is \<^verbatim>\<open>Series.sum()\<close> on a column
  of doubles and \<open>group_sum\<close> is the sum \<^verbatim>\<open>GroupBy.sum()\<close> takes of one group. Nothing
  is assumed about either; \<open>sum_list\<close>, the sum without rounding, is one instance.
\<close>

subsection \<open>Schema\<close>

text \<open>
  \<^verbatim>\<open>users(id INTEGER PRIMARY KEY AUTOINCREMENT, username TEXT UNIQUE, password_hash TEXT)\<close>
\<close>

record users_row =
  users_id :: nat
  username :: string
  password_hash :: string

text \<open>
  \<^verbatim>\<open>transactions(id INTEGER PRIMARY KEY AUTOINCREMENT, user_id INTEGER, date TEXT,
     category TEXT, description TEXT, type TEXT, amount REAL)\<close>
\<close>

record transactions_row =
  transactions_id :: nat
  user_id :: nat
  date :: string
  category :: "string option"
  description :: string
  type :: string
  amount :: real

text \<open>
  The connection. \<open>users_seq\<close> and \<open>transactions_seq\<close> are the two rows of
  \<^verbatim>\<open>sqlite_sequence\<close>: with AUTOINCREMENT the next id is one more than the largest id
  ever handed out for the table.
\<close>

record db =
  users :: "users_row list"
  users_seq :: nat
  transactions :: "transactions_row list"
  transactions_seq :: nat

text \<open>The database right after the two \<^verbatim>\<open>CREATE TABLE IF NOT EXISTS\<close> on a fresh file.\<close>

definition empty_db :: db where
  "empty_db = \<lparr>users = [], users_seq = 0, transactions = [], transactions_seq = 0\<rparr>"

datatype error = IntegrityError

subsection \<open>Credential functions\<close>

text \<open>
  \<^verbatim>\<open>def hash_password(password):
      return hashlib.sha256(password.encode()).hexdigest()\<close>

  \<^verbatim>\<open>hashlib\<close> is a library: the digest is the parameter \<open>sha256\<close>, any function from
  the password to its hexadecimal digest.
\<close>

definition hash_password :: "(string \<Rightarrow> string) \<Rightarrow> string \<Rightarrow> string" where
  "hash_password sha256 password = sha256 password"

text \<open>
  \<^verbatim>\<open>INSERT INTO users (username, password_hash) VALUES (?,?)\<close>

  The UNIQUE constraint on \<^verbatim>\<open>username\<close> makes the statement raise
  \<^verbatim>\<open>sqlite3.IntegrityError\<close> when a row with that username exists; a statement that
  fails changes nothing.
\<close>

definition insert_users :: "string \<Rightarrow> string \<Rightarrow> db \<Rightarrow> error + db" where
  "insert_users name digest d =
     (if name \<in> set (map username (users d)) then Inl IntegrityError
      else Inr (d\<lparr>users := users d @
                    [\<lparr>users_id = Suc (users_seq d), username = name, password_hash = digest\<rparr>],
                  users_seq := Suc (users_seq d)\<rparr>))"

text \<open>
  \<^verbatim>\<open>def register_user(username, password):
      try:
          c.execute("INSERT INTO users (username, password_hash) VALUES (?,?)",
                    (username, hash_password(password)))
          conn.commit()
          return True
      except sqlite3.IntegrityError:
          return False\<close>
\<close>

definition register_user ::
  "(string \<Rightarrow> string) \<Rightarrow> string \<Rightarrow> string \<Rightarrow> db \<Rightarrow> bool \<times> db" where
  "register_user sha256 name password d =
     (case insert_users name (hash_password sha256 password) d of
        Inr d' \<Rightarrow> (True, d')
      | Inl IntegrityError \<Rightarrow> (False, d))"

text \<open>
  \<^verbatim>\<open>def login_user(username, password):
      c.execute("SELECT * FROM users WHERE username=? AND password_hash=?",
                (username, hash_password(password)))
      return c.fetchone()\<close>

  \<^verbatim>\<open>fetchone\<close> gives the first row of the result, or \<^verbatim>\<open>None\<close> when there is none.
\<close>

definition login_user ::
  "(string \<Rightarrow> string) \<Rightarrow> string \<Rightarrow> string \<Rightarrow> db \<Rightarrow> users_row option" where
  "login_user sha256 name password d =
     find (\<lambda>u. username u = name \<and> password_hash u = hash_password sha256 password)
       (users d)"

subsection \<open>Ledger functions\<close>

text \<open>
  \<^verbatim>\<open>def get_transactions(user_id):
      df = pd.read_sql_query("SELECT * FROM transactions WHERE user_id=?", conn,
                             params=(user_id,))
      return df\<close>
\<close>

definition get_transactions :: "nat \<Rightarrow> db \<Rightarrow> transactions_row list" where
  "get_transactions uid d = filter (\<lambda>t. user_id t = uid) (transactions d)"

text \<open>
  The frame the page hands to \<^verbatim>\<open>add_transactions\<close>: the four columns of the editor and
  the \<^verbatim>\<open>Date\<close> column the save handler adds.
\<close>

record edited_row =
  Category :: "string option"
  Description :: string
  Type :: string
  Amount :: real

record dated_row = edited_row +
  Date :: string

text \<open>
  \<^verbatim>\<open>INSERT INTO transactions (user_id,date,category,description,type,amount)
     VALUES (?,?,?,?,?,?)\<close>

  \<open>new_row i uid row\<close> is the row the statement adds when the table hands out id \<open>i\<close>.
\<close>

definition new_row :: "nat \<Rightarrow> nat \<Rightarrow> dated_row \<Rightarrow> transactions_row" where
  "new_row i uid row =
     \<lparr>transactions_id = i, user_id = uid, date = Date row, category = Category row,
      description = Description row, type = Type row, amount = Amount row\<rparr>"

definition insert_transactions :: "nat \<Rightarrow> dated_row \<Rightarrow> db \<Rightarrow> db" where
  "insert_transactions uid row d =
     d\<lparr>transactions := transactions d @ [new_row (Suc (transactions_seq d)) uid row],
       transactions_seq := Suc (transactions_seq d)\<rparr>"

text \<open>
  \<^verbatim>\<open>def add_transactions(user_id, df):
      for _, row in df.iterrows():
          c.execute('''INSERT INTO transactions ...''',
                    (user_id, row["Date"], row["Category"], row["Description"],
                     row["Type"], row["Amount"]))
      conn.commit()\<close>
\<close>

fun add_transactions :: "nat \<Rightarrow> dated_row list \<Rightarrow> db \<Rightarrow> db" where
  "add_transactions uid [] d = d"
| "add_transactions uid (row # df) d = add_transactions uid df (insert_transactions uid row d)"

subsection \<open>Timestamps as text\<close>

text \<open>
  The instant \<^verbatim>\<open>datetime.now()\<close> as far as \<^verbatim>\<open>strftime("%Y-%m-%d %H:%M")\<close> reads it:
  year, month, day, hour and minute. The lexicographic order of the tuple is the order
  of the instants.
\<close>

type_synonym datetime = "nat \<times> nat \<times> nat \<times> nat \<times> nat"

text \<open>\<^verbatim>\<open>str(n)\<close> of a non-negative integer.\<close>

fun str_nat :: "nat \<Rightarrow> string" where
  "str_nat n =
     (if n < 10 then [''0123456789'' ! n]
      else str_nat (n div 10) @ [''0123456789'' ! (n mod 10)])"

declare str_nat.simps [simp del]

text \<open>\<^verbatim>\<open>s.zfill(w)\<close>: the zero padding of \<^verbatim>\<open>%Y\<close> (width 4), \<^verbatim>\<open>%m %d %H %M\<close> (width 2).\<close>

definition zfill :: "nat \<Rightarrow> string \<Rightarrow> string" where
  "zfill w s = replicate (w - length s) (CHR ''0'') @ s"

definition strftime :: "datetime \<Rightarrow> string" where
  "strftime t =
     (case t of (y, m, d, H, M) \<Rightarrow>
        zfill 4 (str_nat y) @ ''-'' @ zfill 2 (str_nat m) @ ''-'' @ zfill 2 (str_nat d) @
        '' '' @ zfill 2 (str_nat H) @ '':'' @ zfill 2 (str_nat M))"

definition digit_val :: "char \<Rightarrow> nat option" where
  "digit_val =
     map_of [(CHR ''0'', 0), (CHR ''1'', 1), (CHR ''2'', 2), (CHR ''3'', 3), (CHR ''4'', 4),
             (CHR ''5'', 5), (CHR ''6'', 6), (CHR ''7'', 7), (CHR ''8'', 8), (CHR ''9'', 9)]"

text \<open>The number a string of decimal digits writes, read from the left with \<open>acc\<close>.\<close>

fun int_of_digits :: "nat \<Rightarrow> string \<Rightarrow> nat option" where
  "int_of_digits acc [] = Some acc"
| "int_of_digits acc (c # cs) =
     (case digit_val c of None \<Rightarrow> None | Some v \<Rightarrow> int_of_digits (10 * acc + v) cs)"

definition is_leap :: "nat \<Rightarrow> bool" where
  "is_leap y = (y mod 4 = 0 \<and> (y mod 100 \<noteq> 0 \<or> y mod 400 = 0))"

definition days_in_month :: "nat \<Rightarrow> nat \<Rightarrow> nat" where
  "days_in_month y m =
     (if m = 2 then (if is_leap y then 29 else 28)
      else if m = 4 \<or> m = 6 \<or> m = 9 \<or> m = 11 then 30 else 31)"

text \<open>
  \<^verbatim>\<open>pd.to_datetime\<close> of one cell. Every \<^verbatim>\<open>date\<close> the program stores was written by
  \<open>strftime\<close>, so the model reads that one layout, \<^verbatim>\<open>YYYY-MM-DD HH:MM\<close>, and checks the
  calendar; \<open>None\<close> is the exception pandas raises on text it cannot read.
\<close>

definition to_datetime :: "string \<Rightarrow> datetime option" where
  "to_datetime s =
     (if length s = 16 \<and> s ! 4 = CHR ''-'' \<and> s ! 7 = CHR ''-'' \<and> s ! 10 = CHR '' '' \<and>
         s ! 13 = CHR '':'' then
        (case (int_of_digits 0 (take 4 s), int_of_digits 0 (take 2 (drop 5 s)),
               int_of_digits 0 (take 2 (drop 8 s)), int_of_digits 0 (take 2 (drop 11 s)),
               int_of_digits 0 (take 2 (drop 14 s))) of
           (Some y, Some m, Some d, Some H, Some M) \<Rightarrow>
             (if 1 \<le> m \<and> m \<le> 12 \<and> 1 \<le> d \<and> d \<le> days_in_month y m \<and> H < 24 \<and> M < 60
              then Some (y, m, d, H, M) else None)
         | _ \<Rightarrow> None)
      else None)"

subsection \<open>The save handler\<close>

text \<open>\<^verbatim>\<open>edited_df["Date"] = ...\<close>: the same text in every row of the frame.\<close>

definition assign_Date :: "string \<Rightarrow> edited_row \<Rightarrow> dated_row" where
  "assign_Date s r =
     \<lparr>Category = Category r, Description = Description r, Type = Type r, Amount = Amount r,
      Date = s\<rparr>"

text \<open>
  \<^verbatim>\<open>if st.button("Save Transactions"):
      edited_df = edited_df[edited_df["Description"] != ""]
      if not edited_df.empty:
          edited_df["Date"] = datetime.now().strftime("%Y-%m-%d %H:%M")
          add_transactions(user_id, edited_df)\<close>

  \<open>edited_df\<close> is what \<^verbatim>\<open>st.data_editor\<close> returned: any number of rows, the amount any
  number (the editor's column configuration constrains \<^verbatim>\<open>Category\<close> and \<^verbatim>\<open>Type\<close> only).
\<close>

definition save_transactions :: "datetime \<Rightarrow> nat \<Rightarrow> edited_row list \<Rightarrow> db \<Rightarrow> db" where
  "save_transactions now uid edited_df d =
     (let edited_df' = filter (\<lambda>r. Description r \<noteq> '''') edited_df in
      if edited_df' \<noteq> [] then
        add_transactions uid (map (assign_Date (strftime now)) edited_df') d
      else d)"

subsection \<open>The summary\<close>

text \<open>
  \<^verbatim>\<open>df.groupby(key)[val].sum()\<close>: one entry for each distinct key that is not NULL
  (\<^verbatim>\<open>dropna=True\<close> is the default, so the rows with a NULL key are in no group), the
  keys in ascending order (\<^verbatim>\<open>sort=True\<close> is the default), the value the sum of the
  group's cells in the order of the rows.
\<close>

definition groupby_sum ::
  "(real list \<Rightarrow> real) \<Rightarrow> ('r \<Rightarrow> 'k::linorder option) \<Rightarrow> ('r \<Rightarrow> real) \<Rightarrow> 'r list \<Rightarrow>
   ('k \<times> real) list" where
  "groupby_sum group_sum key val df =
     map (\<lambda>k. (k, group_sum (map val (filter (\<lambda>r. key r = Some k) df))))
       (sort (remdups (List.map_filter key df)))"

text \<open>
  \<^verbatim>\<open>income = df[df["type"]=="Income"]["amount"].sum()
  expense = df[df["type"]=="Expense"]["amount"].sum()
  balance = income - expense\<close>
\<close>

definition income :: "(real list \<Rightarrow> real) \<Rightarrow> transactions_row list \<Rightarrow> real" where
  "income series_sum df = series_sum (map amount (filter (\<lambda>t. type t = ''Income'') df))"

definition expense :: "(real list \<Rightarrow> real) \<Rightarrow> transactions_row list \<Rightarrow> real" where
  "expense series_sum df = series_sum (map amount (filter (\<lambda>t. type t = ''Expense'') df))"

definition balance :: "(real list \<Rightarrow> real) \<Rightarrow> transactions_row list \<Rightarrow> real" where
  "balance series_sum df = income series_sum df - expense series_sum df"

text \<open>
  The three metrics are computed under \<^verbatim>\<open>if not df.empty:\<close>; with no rows the page
  shows \<^verbatim>\<open>"No transactions yet. Add some above!"\<close> and computes nothing.
\<close>

definition metrics ::
  "(real list \<Rightarrow> real) \<Rightarrow> transactions_row list \<Rightarrow> (real \<times> real \<times> real) option" where
  "metrics series_sum df =
     (if df = [] then None
      else Some (income series_sum df, expense series_sum df, balance series_sum df))"

text \<open>\<^verbatim>\<open>totals = df.groupby("type")["amount"].sum()\<close>\<close>

definition totals :: "(real list \<Rightarrow> real) \<Rightarrow> transactions_row list \<Rightarrow> (string \<times> real) list" where
  "totals group_sum df = groupby_sum group_sum (\<lambda>t. Some (type t)) amount df"

text \<open>
  \<^verbatim>\<open>expense_df = df[df["type"]=="Expense"]
  if not expense_df.empty:
      grouped = expense_df.groupby("category")["amount"].sum()\<close>

  On an empty \<open>expense_df\<close> the chart is skipped; the series would be empty.
\<close>

definition expense_df :: "transactions_row list \<Rightarrow> transactions_row list" where
  "expense_df df = filter (\<lambda>t. type t = ''Expense'') df"

definition grouped :: "(real list \<Rightarrow> real) \<Rightarrow> transactions_row list \<Rightarrow> (string \<times> real) list" where
  "grouped group_sum df = groupby_sum group_sum category amount (expense_df df)"

text \<open>
  \<^verbatim>\<open>df_sorted = df.copy()
  df_sorted["date"] = pd.to_datetime(df_sorted["date"])
  daily_expense = df_sorted[df_sorted["type"]=="Expense"].groupby("date")["amount"].sum()\<close>

  \<open>df_sorted\<close> pairs every row with its parsed \<^verbatim>\<open>date\<close>; it is \<open>None\<close> when a cell does
  not parse and \<^verbatim>\<open>to_datetime\<close> raises.
\<close>

definition df_sorted :: "transactions_row list \<Rightarrow> (datetime \<times> transactions_row) list option" where
  "df_sorted df = those (map (\<lambda>t. map_option (\<lambda>ts. (ts, t)) (to_datetime (date t))) df)"

definition daily_expense ::
  "(real list \<Rightarrow> real) \<Rightarrow> transactions_row list \<Rightarrow> (datetime \<times> real) list option" where
  "daily_expense group_sum df =
     map_option
       (\<lambda>rows. groupby_sum group_sum (\<lambda>r. Some (fst r)) (\<lambda>r. amount (snd r))
                 (filter (\<lambda>r. type (snd r) = ''Expense'') rows))
       (df_sorted df)"

subsection \<open>The CSV download\<close>

text \<open>\<^verbatim>\<open>sep.join(fields)\<close>\<close>

fun join :: "string \<Rightarrow> string list \<Rightarrow> string" where
  "join sep [] = []"
| "join sep [x] = x"
| "join sep (x # y # ys) = x @ sep @ join sep (y # ys)"

text \<open>
  The writer's default dialect: separator \<^verbatim>\<open>,\<close>, quote character \<^verbatim>\<open>"\<close>, minimal
  quoting (a field is quoted when it holds the separator, the quote character, a line
  feed or a carriage return), a quote inside a quoted field doubled, every record
  ended by a line feed.
\<close>

definition needs_quoting :: "string \<Rightarrow> bool" where
  "needs_quoting s =
     list_ex (\<lambda>c. c = CHR '','' \<or> c = CHR 0x22 \<or> c = CHR 0x0A \<or> c = CHR 0x0D) s"

definition double_quotes :: "string \<Rightarrow> string" where
  "double_quotes s = concat (map (\<lambda>c. if c = CHR 0x22 then [CHR 0x22, CHR 0x22] else [c]) s)"

definition quote_field :: "string \<Rightarrow> string" where
  "quote_field s =
     (if needs_quoting s then [CHR 0x22] @ double_quotes s @ [CHR 0x22] else s)"

definition csv_record :: "string list \<Rightarrow> string" where
  "csv_record cells = join '','' (map quote_field cells)"

text \<open>
  The columns of \<open>df\<close> are those of \<^verbatim>\<open>SELECT * FROM transactions\<close>, in the table's
  order.
\<close>

definition columns :: "string list" where
  "columns = [''id'', ''user_id'', ''date'', ''category'', ''description'', ''type'', ''amount'']"

text \<open>
  One row as text. How pandas writes a float is the parameter \<open>float_repr\<close>; a NULL
  cell is written as the empty text (\<^verbatim>\<open>na_rep=''\<close> is the default).
\<close>

definition row_fields :: "(real \<Rightarrow> string) \<Rightarrow> transactions_row \<Rightarrow> string list" where
  "row_fields float_repr t =
     [str_nat (transactions_id t), str_nat (user_id t), date t,
      (case category t of None \<Rightarrow> '''' | Some c \<Rightarrow> c), description t, type t,
      float_repr (amount t)]"

text \<open>
  \<^verbatim>\<open>csv = df.to_csv(index=False).encode("utf-8")\<close>

  A \<open>string\<close> is a list of bytes, so the text and its UTF-8 encoding are the same
  value here.
\<close>

definition to_csv :: "(real \<Rightarrow> string) \<Rightarrow> transactions_row list \<Rightarrow> string" where
  "to_csv float_repr df =
     concat (map (\<lambda>cells. csv_record cells @ [CHR 0x0A])
               (columns # map (row_fields float_repr) df))"

text \<open>
  The download is the last statement of the \<^verbatim>\<open>if not df.empty:\<close> branch:

  \<^verbatim>\<open>if not df.empty:
      ...
      totals = df.groupby("type")["amount"].sum()
      if not totals.empty:
          fig1, ax1 = plt.subplots()
          ax1.pie(totals, labels=totals.index, autopct='%1.1f%%', startangle=90)
          ax1.set_title("Income vs Expense")
          st.pyplot(fig1)
      ...
      df_sorted["date"] = pd.to_datetime(df_sorted["date"])
      ...
      csv = df.to_csv(index=False).encode("utf-8")
      st.download_button(..., data=csv, ...)
  else:
      st.info("No transactions yet. Add some above!")\<close>

  With no rows no CSV is built and no button is shown (\<open>Inr None\<close>). With rows, the
  statements before the download run first, and an exception in one of them ends the
  page before the CSV is built (\<open>Inl ValueError\<close>): the pie chart of \<open>totals\<close>, and
  \<^verbatim>\<open>to_datetime\<close>. On which wedge sizes drawing the pie raises belongs to matplotlib and
  is the parameter \<open>pie_raises\<close>; it does at least on a negative size and on sizes that
  are all zero.
\<close>

datatype exception = ValueError

definition csv_download ::
  "(real list \<Rightarrow> bool) \<Rightarrow> (real list \<Rightarrow> real) \<Rightarrow> (real \<Rightarrow> string) \<Rightarrow> transactions_row list \<Rightarrow>
   exception + string option" where
  "csv_download pie_raises group_sum float_repr df =
     (if df = [] then Inr None
      else if totals group_sum df \<noteq> [] \<and> pie_raises (map snd (totals group_sum df))
        then Inl ValueError
      else if df_sorted df = None then Inl ValueError
      else Inr (Some (to_csv float_repr df)))"

subsection \<open>Reading a CSV text back\<close>

text \<open>
  The records of a CSV text, as a reader of the same dialect finds them: a line feed
  ends a record unless it stands inside a quoted field, and every quote character
  switches between inside and outside (a doubled quote switches twice). \<open>q\<close> says
  whether the reader is inside quotes, \<open>cur\<close> holds the current record reversed.
\<close>

fun csv_records_from :: "bool \<Rightarrow> string \<Rightarrow> string \<Rightarrow> string list" where
  "csv_records_from q cur [] = (if cur = [] then [] else [rev cur])"
| "csv_records_from q cur (c # cs) =
     (if c = CHR 0x22 then csv_records_from (\<not> q) (c # cur) cs
      else if c = CHR 0x0A \<and> \<not> q then rev cur # csv_records_from False [] cs
      else csv_records_from q (c # cur) cs)"

definition csv_records :: "string \<Rightarrow> string list" where
  "csv_records s = csv_records_from False [] s"

section \<open>Credential store\<close>

lemma insert_users_fresh:
  "name \<notin> set (map username (users d)) \<Longrightarrow>
   insert_users name digest d =
     Inr (d\<lparr>users := users d @
                [\<lparr>users_id = Suc (users_seq d), username = name, password_hash = digest\<rparr>],
            users_seq := Suc (users_seq d)\<rparr>)"
  by (simp add: insert_users_def)

lemma find_append_fresh:
  "\<forall>x \<in> set xs. \<not> P x \<Longrightarrow> P y \<Longrightarrow> find P (xs @ [y]) = Some y"
  by (induction xs) auto


lemma register_user_fresh:
  "name \<notin> set (map username (users d)) \<Longrightarrow>
   register_user sha256 name password d =
     (True, d\<lparr>users := users d @
                [\<lparr>users_id = Suc (users_seq d), username = name,
                  password_hash = hash_password sha256 password\<rparr>],
              users_seq := Suc (users_seq d)\<rparr>)"
  by (simp add: register_user_def insert_users_def)

lemma register_user_taken:
  "name \<in> set (map username (users d)) \<Longrightarrow> register_user sha256 name password d = (False, d)"
  by (simp add: register_user_def insert_users_def)

lemma register_user_True_iff:
  "fst (register_user sha256 name password d) \<longleftrightarrow> name \<notin> set (map username (users d))"
  by (simp add: register_user_def insert_users_def)

lemma register_user_True_username:
  assumes "register_user sha256 name password d = (True, d')"
  shows "name \<in> set (map username (users d'))"
proof -
  from assms have fresh: "name \<notin> set (map username (users d))"
    using register_user_True_iff [of sha256 name password d] by simp
  from assms register_user_fresh [OF fresh, of sha256 password] show ?thesis
    by auto
qed

text \<open>
  Claim C3. For every username that no row of \<open>users\<close> carries and every password,
  \<open>register_user\<close> returns \<open>True\<close>, and \<open>login_user\<close> with the same username and
  password on the database it leaves returns the row just inserted (the new id, the
  username, the digest of the password), not \<open>None\<close>.
\<close>

theorem register_then_login:
  "name \<notin> set (map username (users d)) \<Longrightarrow>
   fst (register_user sha256 name password d) = True \<and>
   login_user sha256 name password (snd (register_user sha256 name password d)) =
     Some \<lparr>users_id = Suc (users_seq d), username = name,
           password_hash = hash_password sha256 password\<rparr>"
proof -
  assume fresh: "name \<notin> set (map username (users d))"
  let ?row = "\<lparr>users_id = Suc (users_seq d), username = name,
                password_hash = hash_password sha256 password\<rparr>"
  let ?P = "\<lambda>u. username u = name \<and> password_hash u = hash_password sha256 password"
  from fresh have none: "\<forall>u \<in> set (users d). \<not> ?P u"
    by auto
  have "find ?P (users d @ [?row]) = Some ?row"
    by (rule find_append_fresh [OF none]) simp
  then show ?thesis
    by (simp add: register_user_fresh [OF fresh] login_user_def)
qed

theorem register_then_login_witness:
  "''asha'' \<notin> set (map username (users empty_db)) \<and>
   fst (register_user rev ''asha'' ''s3cret'' empty_db) = True \<and>
   login_user rev ''asha'' ''s3cret'' (snd (register_user rev ''asha'' ''s3cret'' empty_db)) =
     Some \<lparr>users_id = 1, username = ''asha'', password_hash = ''terc3s''\<rparr>"
  using register_then_login [of "''asha''" empty_db rev "''s3cret''"]
  by (simp add: empty_db_def hash_password_def)

text \<open>
  Claim C4. When \<open>register_user\<close> has succeeded for a username with password \<open>p1\<close>, a
  second \<open>register_user\<close> for the same username fails whatever the password \<open>p2\<close> is,
  equal to \<open>p1\<close> or not: the INSERT raises \<open>IntegrityError\<close>, the duplicate-username
  failure, and the function returns \<open>False\<close>.
\<close>

theorem register_twice_fails:
  "register_user sha256 name p1 d = (True, d') \<Longrightarrow>
   insert_users name (hash_password sha256 p2) d' = Inl IntegrityError \<and>
   fst (register_user sha256 name p2 d') = False"
proof -
  assume "register_user sha256 name p1 d = (True, d')"
  then have "name \<in> set (map username (users d'))"
    by (rule register_user_True_username)
  then show ?thesis
    by (simp add: register_user_def insert_users_def)
qed

theorem register_twice_fails_witness:
  "register_user rev ''asha'' ''one'' empty_db =
     (True, \<lparr>users = [\<lparr>users_id = 1, username = ''asha'', password_hash = ''eno''\<rparr>],
             users_seq = 1, transactions = [], transactions_seq = 0\<rparr>) \<and>
   insert_users ''asha'' (hash_password rev ''two'')
     \<lparr>users = [\<lparr>users_id = 1, username = ''asha'', password_hash = ''eno''\<rparr>],
      users_seq = 1, transactions = [], transactions_seq = 0\<rparr> = Inl IntegrityError \<and>
   fst (register_user rev ''asha'' ''two''
     \<lparr>users = [\<lparr>users_id = 1, username = ''asha'', password_hash = ''eno''\<rparr>],
      users_seq = 1, transactions = [], transactions_seq = 0\<rparr>) = False"
proof -
  have reg: "register_user rev ''asha'' ''one'' empty_db =
     (True, \<lparr>users = [\<lparr>users_id = 1, username = ''asha'', password_hash = ''eno''\<rparr>],
             users_seq = 1, transactions = [], transactions_seq = 0\<rparr>)"
    by (simp add: register_user_def insert_users_def empty_db_def hash_password_def)
  from reg register_twice_fails [OF reg, of "''two''"] show ?thesis
    by simp
qed

text \<open>
  Claim C10. For every username already in \<open>users\<close>, \<open>register_user\<close> returns \<open>False\<close>
  and the database it leaves is the one it was given: no row added to \<open>users\<close>, no
  row of it changed.
\<close>

theorem register_failure_atomic:
  "name \<in> set (map username (users d)) \<Longrightarrow>
   register_user sha256 name password d = (False, d) \<and>
   users (snd (register_user sha256 name password d)) = users d"
  by (simp add: register_user_taken)

theorem register_failure_atomic_witness:
  "''asha'' \<in> set (map username (users
     \<lparr>users = [\<lparr>users_id = 1, username = ''asha'', password_hash = ''eno''\<rparr>],
      users_seq = 1, transactions = [], transactions_seq = 0\<rparr>)) \<and>
   register_user rev ''asha'' ''two''
     \<lparr>users = [\<lparr>users_id = 1, username = ''asha'', password_hash = ''eno''\<rparr>],
      users_seq = 1, transactions = [], transactions_seq = 0\<rparr> =
     (False, \<lparr>users = [\<lparr>users_id = 1, username = ''asha'', password_hash = ''eno''\<rparr>],
      users_seq = 1, transactions = [], transactions_seq = 0\<rparr>)"
  using register_failure_atomic [of "''asha''"
     "\<lparr>users = [\<lparr>users_id = 1, username = ''asha'', password_hash = ''eno''\<rparr>],
      users_seq = 1, transactions = [], transactions_seq = 0\<rparr>" rev "''two''"]
  by simp


section \<open>Ledger store\<close>

lemma add_transactions_users [simp]: "users (add_transactions uid df d) = users d"
  by (induction df arbitrary: d) (simp_all add: insert_transactions_def)

lemma add_transactions_rows:
  "transactions (add_transactions uid df d) =
     transactions d @
     map (\<lambda>(i, row). new_row (Suc i) uid row) (enumerate (transactions_seq d) df)"
  by (induction df arbitrary: d) (simp_all add: insert_transactions_def)

lemma add_transactions_map:
  assumes "\<And>i row. f (new_row i uid row) = g row"
  shows "map f (transactions (add_transactions uid df d)) = map f (transactions d) @ map g df"
proof -
  have "map (f \<circ> (\<lambda>(i, row). new_row (Suc i) uid row)) (enumerate n df) = map g df" for n
    by (induction df arbitrary: n) (simp_all add: assms)
  then show ?thesis
    by (simp add: add_transactions_rows)
qed

lemma get_transactions_add_other:
  "u \<noteq> v \<Longrightarrow> get_transactions u (add_transactions v df d) = get_transactions u d"
  by (simp add: get_transactions_def add_transactions_rows new_row_def split_def)

text \<open>
  Claim C7. \<open>get_transactions u\<close> returns only rows whose \<open>user_id\<close> is \<open>u\<close>, and for a
  different user \<open>v\<close>, \<open>add_transactions v\<close> of any batch leaves the result of
  \<open>get_transactions u\<close> as it was.
\<close>

theorem no_cross_user_visibility:
  "(\<forall>t \<in> set (get_transactions u d). user_id t = u) \<and>
   (u \<noteq> v \<longrightarrow> get_transactions u (add_transactions v df d) = get_transactions u d)"
  by (simp add: get_transactions_add_other) (simp add: get_transactions_def)


theorem no_cross_user_visibility_witness:
  "get_transactions 1
     (add_transactions 1
        [\<lparr>Category = Some ''Food'', Description = ''lunch'', Type = ''Expense'', Amount = 150,
          Date = ''2024-01-05 09:30''\<rparr>] empty_db) =
     [\<lparr>transactions_id = 1, user_id = 1, date = ''2024-01-05 09:30'', category = Some ''Food'',
       description = ''lunch'', type = ''Expense'', amount = 150\<rparr>] \<and>
   (1::nat) \<noteq> 2 \<and>
   get_transactions 1
     (add_transactions 2
        [\<lparr>Category = Some ''Salary'', Description = ''pay'', Type = ''Income'', Amount = 5000,
          Date = ''2024-01-05 09:31''\<rparr>]
        (add_transactions 1
           [\<lparr>Category = Some ''Food'', Description = ''lunch'', Type = ''Expense'', Amount = 150,
             Date = ''2024-01-05 09:30''\<rparr>] empty_db)) =
     [\<lparr>transactions_id = 1, user_id = 1, date = ''2024-01-05 09:30'', category = Some ''Food'',
       description = ''lunch'', type = ''Expense'', amount = 150\<rparr>]"
proof -
  let ?d = "add_transactions 1
        [\<lparr>Category = Some ''Food'', Description = ''lunch'', Type = ''Expense'', Amount = 150,
          Date = ''2024-01-05 09:30''\<rparr>] empty_db"
  have own: "get_transactions 1 ?d =
     [\<lparr>transactions_id = 1, user_id = 1, date = ''2024-01-05 09:30'', category = Some ''Food'',
       description = ''lunch'', type = ''Expense'', amount = 150\<rparr>]"
    by (simp add: get_transactions_def insert_transactions_def new_row_def empty_db_def)
  from own no_cross_user_visibility [of 1 ?d 2
      "[\<lparr>Category = Some ''Salary'', Description = ''pay'', Type = ''Income'', Amount = 5000,
          Date = ''2024-01-05 09:31''\<rparr>]"]
  show ?thesis by simp
qed

lemma save_transactions_rows:
  "transactions (save_transactions now uid edited_df d) =
     transactions d @
     map (\<lambda>(i, row). new_row (Suc i) uid row)
       (enumerate (transactions_seq d)
          (map (assign_Date (strftime now)) (filter (\<lambda>r. Description r \<noteq> '''') edited_df)))"
  by (simp add: save_transactions_def Let_def add_transactions_rows)

lemma save_transactions_map:
  assumes "\<And>i r. f (new_row i uid (assign_Date (strftime now) r)) = g r"
  shows "map f (transactions (save_transactions now uid edited_df d)) =
         map f (transactions d) @ map g (filter (\<lambda>r. Description r \<noteq> '''') edited_df)"
proof -
  have "map f (transactions (add_transactions uid (map (assign_Date (strftime now)) rs) d)) =
        map f (transactions d) @ map g rs" for rs
    using add_transactions_map [of f uid "\<lambda>row. f (new_row 0 uid row)"]
    by (induction rs arbitrary: d) (simp_all add: insert_transactions_def assms)
  then show ?thesis
    by (simp add: save_transactions_def Let_def)
qed

lemma save_transactions_amounts:
  "map amount (transactions (save_transactions now uid edited_df d)) =
   map amount (transactions d) @ map Amount (filter (\<lambda>r. Description r \<noteq> '''') edited_df)"
  by (rule save_transactions_map) (simp add: new_row_def assign_Date_def)

text \<open>
  Claim C8, as amended. Neither the editor nor the store checks the sign of an amount:
  the save handler appends, in order, exactly the amounts entered in the rows whose
  description is not empty. So the stored amounts are all non-negative after a save
  when they were before and every entered amount of a kept row is non-negative.
\<close>

theorem stored_amount_is_entered_amount:
  "map amount (transactions (save_transactions now uid edited_df d)) =
     map amount (transactions d) @ map Amount (filter (\<lambda>r. Description r \<noteq> '''') edited_df) \<and>
   ((\<forall>t \<in> set (transactions d). 0 \<le> amount t) \<and>
    (\<forall>r \<in> set edited_df. Description r \<noteq> '''' \<longrightarrow> 0 \<le> Amount r) \<longrightarrow>
    (\<forall>t \<in> set (transactions (save_transactions now uid edited_df d)). 0 \<le> amount t))"
proof (intro conjI impI)
  show eq: "map amount (transactions (save_transactions now uid edited_df d)) =
     map amount (transactions d) @ map Amount (filter (\<lambda>r. Description r \<noteq> '''') edited_df)"
    by (rule save_transactions_amounts)
  assume ok: "(\<forall>t \<in> set (transactions d). 0 \<le> amount t) \<and>
    (\<forall>r \<in> set edited_df. Description r \<noteq> '''' \<longrightarrow> 0 \<le> Amount r)"
  have "\<forall>a \<in> set (map amount (transactions (save_transactions now uid edited_df d))). 0 \<le> a"
    unfolding eq using ok by auto
  then show "\<forall>t \<in> set (transactions (save_transactions now uid edited_df d)). 0 \<le> amount t"
    by simp
qed

text \<open>
  Claim C8 as stated fails: a row entered with amount \<open>-5\<close> is accepted by the save
  handler and stored with amount \<open>-5\<close>.
\<close>

theorem negative_amount_is_stored:
  "map amount (transactions (save_transactions (2024, 1, 5, 9, 30) 1
     [\<lparr>Category = Some ''Food'', Description = ''refund'', Type = ''Expense'', Amount = - 5\<rparr>]
     empty_db)) = [- 5] \<and>
   \<not> (\<forall>t \<in> set (transactions (save_transactions (2024, 1, 5, 9, 30) 1
     [\<lparr>Category = Some ''Food'', Description = ''refund'', Type = ''Expense'', Amount = - 5\<rparr>]
     empty_db)). 0 \<le> amount t)"
proof -
  have eq: "map amount (transactions (save_transactions (2024, 1, 5, 9, 30) 1
     [\<lparr>Category = Some ''Food'', Description = ''refund'', Type = ''Expense'', Amount = - 5\<rparr>]
     empty_db)) = [- 5]"
    by (simp add: save_transactions_amounts empty_db_def)
  have "\<not> (\<forall>t \<in> set (transactions (save_transactions (2024, 1, 5, 9, 30) 1
     [\<lparr>Category = Some ''Food'', Description = ''refund'', Type = ''Expense'', Amount = - 5\<rparr>]
     empty_db)). 0 \<le> amount t)"
  proof
    assume "\<forall>t \<in> set (transactions (save_transactions (2024, 1, 5, 9, 30) 1
     [\<lparr>Category = Some ''Food'', Description = ''refund'', Type = ''Expense'', Amount = - 5\<rparr>]
     empty_db)). 0 \<le> amount t"
    then have "\<forall>a \<in> set (map amount (transactions (save_transactions (2024, 1, 5, 9, 30) 1
     [\<lparr>Category = Some ''Food'', Description = ''refund'', Type = ''Expense'', Amount = - 5\<rparr>]
     empty_db))). 0 \<le> a"
      by simp
    then show False
      unfolding eq by simp
  qed
  with eq show ?thesis by blast
qed

theorem stored_amount_is_entered_amount_witness:
  "map amount (transactions (save_transactions (2024, 1, 5, 9, 30) 1
     [\<lparr>Category = Some ''Food'', Description = ''lunch'', Type = ''Expense'', Amount = 150\<rparr>,
      \<lparr>Category = Some ''Food'', Description = '''', Type = ''Expense'', Amount = - 1\<rparr>]
     empty_db)) = [150] \<and>
   (0::real) \<le> 150 \<and>
   list_all (\<lambda>t. 0 \<le> amount t) (transactions (save_transactions (2024, 1, 5, 9, 30) 1
     [\<lparr>Category = Some ''Food'', Description = ''lunch'', Type = ''Expense'', Amount = 150\<rparr>,
      \<lparr>Category = Some ''Food'', Description = '''', Type = ''Expense'', Amount = - 1\<rparr>]
     empty_db))"
  using stored_amount_is_entered_amount [of "(2024, 1, 5, 9, 30)" 1
     "[\<lparr>Category = Some ''Food'', Description = ''lunch'', Type = ''Expense'', Amount = 150\<rparr>,
      \<lparr>Category = Some ''Food'', Description = '''', Type = ''Expense'', Amount = - 1\<rparr>]" empty_db]
  by (simp add: empty_db_def list_all_iff)


lemma filter_map_Description:
  "map Description (filter (\<lambda>r. Description r \<noteq> '''') rs) = filter (\<lambda>s. s \<noteq> '''') (map Description rs)"
  by (induction rs) simp_all

text \<open>
  Claim C9. The save handler drops exactly the rows whose description is the empty
  string: the descriptions it appends are the entered ones that differ from \<open>''''\<close>, in
  order. Every row with any other description, one that is a single space or only
  whitespace included, is stored under the user's id with the handler's timestamp and
  its own category, description, type and amount.
\<close>

theorem save_filter_drops_only_empty_description:
  "map description (transactions (save_transactions now uid edited_df d)) =
     map description (transactions d) @ filter (\<lambda>s. s \<noteq> '''') (map Description edited_df) \<and>
   (\<forall>r \<in> set edited_df. Description r \<noteq> '''' \<longrightarrow>
      (\<exists>t \<in> set (transactions (save_transactions now uid edited_df d)).
         user_id t = uid \<and> date t = strftime now \<and> category t = Category r \<and>
         description t = Description r \<and> type t = Type r \<and> amount t = Amount r))"
proof (intro conjI ballI impI)
  have "map description (transactions (save_transactions now uid edited_df d)) =
        map description (transactions d) @
        map Description (filter (\<lambda>r. Description r \<noteq> '''') edited_df)"
    by (rule save_transactions_map) (simp add: new_row_def assign_Date_def)
  then show "map description (transactions (save_transactions now uid edited_df d)) =
     map description (transactions d) @ filter (\<lambda>s. s \<noteq> '''') (map Description edited_df)"
    by (simp only: filter_map_Description)
next
  fix r
  assume r: "r \<in> set edited_df" and nonempty: "Description r \<noteq> ''''"
  let ?f = "\<lambda>t. (user_id t, date t, category t, description t, type t, amount t)"
  let ?g = "\<lambda>r. (uid, strftime now, Category r, Description r, Type r, Amount r)"
  have eq: "map ?f (transactions (save_transactions now uid edited_df d)) =
        map ?f (transactions d) @ map ?g (filter (\<lambda>r. Description r \<noteq> '''') edited_df)"
    by (rule save_transactions_map) (simp add: new_row_def assign_Date_def)
  from r nonempty have "?g r \<in> set (map ?g (filter (\<lambda>r. Description r \<noteq> '''') edited_df))"
    by simp
  then have "?g r \<in> set (map ?f (transactions (save_transactions now uid edited_df d)))"
    unfolding eq by simp
  then obtain t where "t \<in> set (transactions (save_transactions now uid edited_df d))"
    and "?f t = ?g r"
    by auto
  then show "\<exists>t \<in> set (transactions (save_transactions now uid edited_df d)).
         user_id t = uid \<and> date t = strftime now \<and> category t = Category r \<and>
         description t = Description r \<and> type t = Type r \<and> amount t = Amount r"
    by auto
qed

theorem save_filter_drops_only_empty_description_witness:
  "'' '' \<noteq> '''' \<and>
   map description (transactions (save_transactions (2024, 1, 5, 9, 30) 1
     [\<lparr>Category = Some ''Food'', Description = '' '', Type = ''Expense'', Amount = 10\<rparr>,
      \<lparr>Category = Some ''Food'', Description = '''', Type = ''Expense'', Amount = 0\<rparr>]
     empty_db)) = ['' ''] \<and>
   list_ex (\<lambda>t. user_id t = 1 \<and> category t = Some ''Food'' \<and> description t = '' '' \<and>
                type t = ''Expense'' \<and> amount t = 10)
     (transactions (save_transactions (2024, 1, 5, 9, 30) 1
     [\<lparr>Category = Some ''Food'', Description = '' '', Type = ''Expense'', Amount = 10\<rparr>,
      \<lparr>Category = Some ''Food'', Description = '''', Type = ''Expense'', Amount = 0\<rparr>]
     empty_db))"
  using save_filter_drops_only_empty_description [of "(2024, 1, 5, 9, 30)" 1
     "[\<lparr>Category = Some ''Food'', Description = '' '', Type = ''Expense'', Amount = 10\<rparr>,
      \<lparr>Category = Some ''Food'', Description = '''', Type = ''Expense'', Amount = 0\<rparr>]" empty_db]
  by (auto simp add: empty_db_def list_ex_iff)

section \<open>Aggregation\<close>

lemma sum_groups:
  fixes val :: "'r \<Rightarrow> real"
  assumes "finite K" and "key ` set df \<subseteq> K"
  shows "(\<Sum>k\<in>K. sum_list (map val (filter (\<lambda>r. key r = k) df))) = sum_list (map val df)"
  using assms(2)
proof (induction df)
  case Nil
  then show ?case by simp
next
  case (Cons x df)
  then have x: "key x \<in> K" and rest: "key ` set df \<subseteq> K"
    by simp_all
  have "(\<Sum>k\<in>K. sum_list (map val (filter (\<lambda>r. key r = k) (x # df)))) =
        (\<Sum>k\<in>K. (if key x = k then val x else 0) +
                 sum_list (map val (filter (\<lambda>r. key r = k) df)))"
    by (rule sum.cong) simp_all
  also have "\<dots> = (\<Sum>k\<in>K. if key x = k then val x else 0) +
                  (\<Sum>k\<in>K. sum_list (map val (filter (\<lambda>r. key r = k) df)))"
    by (rule sum.distrib)
  also have "(\<Sum>k\<in>K. if key x = k then val x else 0) = val x"
    using assms(1) x by (simp add: sum.delta')
  finally show ?case
    using Cons.IH [OF rest] by simp
qed

lemma set_map_filter_key: "set (List.map_filter key df) = {k. \<exists>r \<in> set df. key r = Some k}"
  by (auto simp add: List.map_filter_def image_iff) force

lemma groupby_sum_keys:
  "map fst (groupby_sum group_sum key val df) = sort (remdups (List.map_filter key df))"
  by (simp add: groupby_sum_def comp_def)

lemma groupby_sum_key_set:
  "set (map fst (groupby_sum group_sum key val df)) = {k. \<exists>r \<in> set df. key r = Some k}"
  by (simp only: groupby_sum_keys set_sort set_remdups set_map_filter_key)

lemma groupby_sum_entry:
  "(k, v) \<in> set (groupby_sum group_sum key val df) \<Longrightarrow>
   v = group_sum (map val (filter (\<lambda>r. key r = Some k) df))"
  by (auto simp add: groupby_sum_def)

lemma sum_groups_option:
  fixes val :: "'r \<Rightarrow> real"
  shows "(\<Sum>k \<in> {k. \<exists>r \<in> set df. key r = Some k}.
            sum_list (map val (filter (\<lambda>r. key r = Some k) df))) =
         sum_list (map val (filter (\<lambda>r. key r \<noteq> None) df))"
proof -
  let ?K = "{k. \<exists>r \<in> set df. key r = Some k}"
  let ?df = "filter (\<lambda>r. key r \<noteq> None) df"
  have fin: "finite ?K"
    using finite_set [of "List.map_filter key df"] by (simp only: set_map_filter_key)
  have sub: "(\<lambda>r. the (key r)) ` set ?df \<subseteq> ?K"
    by auto
  have "filter (\<lambda>r. key r = Some k) df = filter (\<lambda>r. the (key r) = k) ?df" for k
    by (induction df) auto
  then show ?thesis
    using sum_groups [OF fin sub, of val] by simp
qed

lemma groupby_sum_total:
  assumes "\<forall>k \<in> set (map fst (groupby_sum group_sum key val df)).
             group_sum (map val (filter (\<lambda>r. key r = Some k) df)) =
             sum_list (map val (filter (\<lambda>r. key r = Some k) df))"
  shows "sum_list (map snd (groupby_sum group_sum key val df)) =
         sum_list (map val (filter (\<lambda>r. key r \<noteq> None) df))"
proof -
  let ?ks = "sort (remdups (List.map_filter key df))"
  let ?f = "\<lambda>k. sum_list (map val (filter (\<lambda>r. key r = Some k) df))"
  have "map snd (groupby_sum group_sum key val df) =
        map (\<lambda>k. group_sum (map val (filter (\<lambda>r. key r = Some k) df))) ?ks"
    by (simp add: groupby_sum_def comp_def)
  also have "\<dots> = map ?f ?ks"
    using assms by (simp add: groupby_sum_keys)
  finally have "sum_list (map snd (groupby_sum group_sum key val df)) = sum_list (map ?f ?ks)"
    by simp
  also have "\<dots> = sum ?f (set ?ks)"
    by (rule sum_list_distinct_conv_sum_set) simp
  also have "set ?ks = {k. \<exists>r \<in> set df. key r = Some k}"
    by (simp only: set_sort set_remdups set_map_filter_key)
  finally show ?thesis
    by (simp only: sum_groups_option)
qed

text \<open>
  Claim C1. For every sequence of transactions, \<open>income\<close> is the sum of the amounts of
  the rows of type \<^verbatim>\<open>Income\<close>, \<open>expense\<close> the sum of the amounts of the rows of type
  \<^verbatim>\<open>Expense\<close>, and the balance the page computes is exactly \<open>income\<close> minus \<open>expense\<close>
  (the page computes the three whenever the sequence is not empty). This holds for
  whatever sum pandas takes of a column; with the sum that does not round, the two
  totals are the sums, over all rows, of the amounts of the rows of the type.
\<close>

theorem balance_is_income_minus_expense:
  "income series_sum df = series_sum (map amount [t\<leftarrow>df. type t = ''Income'']) \<and>
   expense series_sum df = series_sum (map amount [t\<leftarrow>df. type t = ''Expense'']) \<and>
   balance series_sum df = income series_sum df - expense series_sum df \<and>
   metrics series_sum df =
     (if df = [] then None
      else Some (income series_sum df, expense series_sum df,
                 income series_sum df - expense series_sum df)) \<and>
   income sum_list df = (\<Sum>t\<leftarrow>df. if type t = ''Income'' then amount t else 0) \<and>
   expense sum_list df = (\<Sum>t\<leftarrow>df. if type t = ''Expense'' then amount t else 0)"
  by (simp add: income_def expense_def balance_def metrics_def sum_list_map_filter')

text \<open>
  Claim C2, as amended. For every sequence of transactions, the series \<open>grouped\<close>
  (expenses by category) has one entry for each category that an \<^verbatim>\<open>Expense\<close> row
  carries and no other, and the value of an entry is the group sum of the amounts of
  the \<^verbatim>\<open>Expense\<close> rows of that category only. When every \<^verbatim>\<open>Expense\<close> row has a category
  and the sums involved come out without rounding (the group sum of each category and
  the column sum of the \<^verbatim>\<open>Expense\<close> amounts), the values add up to \<open>expense\<close> of the
  same sequence.
\<close>

theorem grouped_only_expense_with_category:
  "set (map fst (grouped group_sum df)) =
     {c. \<exists>t \<in> set df. type t = ''Expense'' \<and> category t = Some c} \<and>
   distinct (map fst (grouped group_sum df)) \<and>
   (\<forall>(k, v) \<in> set (grouped group_sum df).
      v = group_sum (map amount [t\<leftarrow>df. type t = ''Expense'' \<and> category t = Some k])) \<and>
   ((\<forall>t \<in> set df. type t = ''Expense'' \<longrightarrow> category t \<noteq> None) \<and>
    (\<forall>k \<in> set (map fst (grouped group_sum df)).
       group_sum (map amount [t\<leftarrow>df. type t = ''Expense'' \<and> category t = Some k]) =
       sum_list (map amount [t\<leftarrow>df. type t = ''Expense'' \<and> category t = Some k])) \<and>
    series_sum (map amount [t\<leftarrow>df. type t = ''Expense'']) =
      sum_list (map amount [t\<leftarrow>df. type t = ''Expense'']) \<longrightarrow>
    sum_list (map snd (grouped group_sum df)) = expense series_sum df)"
proof (intro conjI impI)
  have flt: "filter (\<lambda>t. category t = Some k) (expense_df df) =
             [t\<leftarrow>df. type t = ''Expense'' \<and> category t = Some k]" for k
    by (simp add: expense_df_def conj_commute)
  show "set (map fst (grouped group_sum df)) =
     {c. \<exists>t \<in> set df. type t = ''Expense'' \<and> category t = Some c}"
    unfolding grouped_def groupby_sum_key_set by (auto simp add: expense_df_def)
  show "distinct (map fst (grouped group_sum df))"
    by (simp add: grouped_def groupby_sum_keys)
  show "\<forall>(k, v) \<in> set (grouped group_sum df).
      v = group_sum (map amount [t\<leftarrow>df. type t = ''Expense'' \<and> category t = Some k])"
  proof (clarify)
    fix k v
    assume "(k, v) \<in> set (grouped group_sum df)"
    then have "v = group_sum (map amount (filter (\<lambda>t. category t = Some k) (expense_df df)))"
      unfolding grouped_def by (rule groupby_sum_entry)
    then show "v = group_sum (map amount [t\<leftarrow>df. type t = ''Expense'' \<and> category t = Some k])"
      by (simp only: flt)
  qed
  assume hyp: "(\<forall>t \<in> set df. type t = ''Expense'' \<longrightarrow> category t \<noteq> None) \<and>
    (\<forall>k \<in> set (map fst (grouped group_sum df)).
       group_sum (map amount [t\<leftarrow>df. type t = ''Expense'' \<and> category t = Some k]) =
       sum_list (map amount [t\<leftarrow>df. type t = ''Expense'' \<and> category t = Some k])) \<and>
    series_sum (map amount [t\<leftarrow>df. type t = ''Expense'']) =
      sum_list (map amount [t\<leftarrow>df. type t = ''Expense''])"
  then have exact: "\<forall>k \<in> set (map fst (groupby_sum group_sum category amount (expense_df df))).
       group_sum (map amount (filter (\<lambda>t. category t = Some k) (expense_df df))) =
       sum_list (map amount (filter (\<lambda>t. category t = Some k) (expense_df df)))"
    unfolding flt grouped_def by blast
  from hyp have all: "\<forall>t \<in> set (expense_df df). category t \<noteq> None"
    by (simp add: expense_df_def)
  have "filter (\<lambda>t. category t \<noteq> None) (expense_df df) = expense_df df"
    using all by (simp only: filter_id_conv)
  with groupby_sum_total [OF exact]
  have "sum_list (map snd (grouped group_sum df)) = sum_list (map amount (expense_df df))"
    by (simp add: grouped_def)
  with hyp show "sum_list (map snd (grouped group_sum df)) = expense series_sum df"
    by (simp add: expense_def expense_df_def)
qed

theorem grouped_only_expense_with_category_witness:
  "grouped sum_list
     [\<lparr>transactions_id = 1, user_id = 1, date = ''2024-01-05 09:30'', category = Some ''Travel'',
       description = ''bus'', type = ''Expense'', amount = 40\<rparr>,
      \<lparr>transactions_id = 2, user_id = 1, date = ''2024-01-05 09:30'', category = Some ''Food'',
       description = ''lunch'', type = ''Expense'', amount = 150\<rparr>,
      \<lparr>transactions_id = 3, user_id = 1, date = ''2024-01-05 09:30'', category = None,
       description = ''pay'', type = ''Income'', amount = 5000\<rparr>,
      \<lparr>transactions_id = 4, user_id = 1, date = ''2024-01-06 13:00'', category = Some ''Food'',
       description = ''tea'', type = ''Expense'', amount = 10\<rparr>] =
     [(''Food'', 160), (''Travel'', 40)] \<and>
   expense sum_list
     [\<lparr>transactions_id = 1, user_id = 1, date = ''2024-01-05 09:30'', category = Some ''Travel'',
       description = ''bus'', type = ''Expense'', amount = 40\<rparr>,
      \<lparr>transactions_id = 2, user_id = 1, date = ''2024-01-05 09:30'', category = Some ''Food'',
       description = ''lunch'', type = ''Expense'', amount = 150\<rparr>,
      \<lparr>transactions_id = 3, user_id = 1, date = ''2024-01-05 09:30'', category = None,
       description = ''pay'', type = ''Income'', amount = 5000\<rparr>,
      \<lparr>transactions_id = 4, user_id = 1, date = ''2024-01-06 13:00'', category = Some ''Food'',
       description = ''tea'', type = ''Expense'', amount = 10\<rparr>] = 200"
proof -
  let ?df = "[\<lparr>transactions_id = 1, user_id = 1, date = ''2024-01-05 09:30'', category = Some ''Travel'',
       description = ''bus'', type = ''Expense'', amount = 40\<rparr>,
      \<lparr>transactions_id = 2, user_id = 1, date = ''2024-01-05 09:30'', category = Some ''Food'',
       description = ''lunch'', type = ''Expense'', amount = 150\<rparr>,
      \<lparr>transactions_id = 3, user_id = 1, date = ''2024-01-05 09:30'', category = None,
       description = ''pay'', type = ''Income'', amount = 5000\<rparr>,
      \<lparr>transactions_id = 4, user_id = 1, date = ''2024-01-06 13:00'', category = Some ''Food'',
       description = ''tea'', type = ''Expense'', amount = 10\<rparr>]"
  have g: "grouped sum_list ?df = [(''Food'', 160), (''Travel'', 40)]"
    by (simp add: grouped_def groupby_sum_def expense_df_def List.map_filter_def
        less_eq_char_def less_char_def list_le_def)
  have cats: "\<forall>t \<in> set ?df. type t = ''Expense'' \<longrightarrow> category t \<noteq> None"
    by simp
  from grouped_only_expense_with_category [of sum_list ?df sum_list] cats
  have "sum_list (map snd (grouped sum_list ?df)) = expense sum_list ?df"
    by blast
  with g show ?thesis by simp
qed

text \<open>
  Claim C2 as stated fails: a row saved with type \<^verbatim>\<open>Expense\<close>, amount 50 and the
  category cell left empty counts in \<open>expense\<close>, which is 50, and is in no group of
  \<open>grouped\<close>, which is empty and whose values add up to 0. The sums here have one
  term or none, so no rounding is involved.
\<close>

theorem grouped_misses_null_category:
  "grouped sum_list (get_transactions 1
     (save_transactions (2024, 1, 5, 9, 30) 1
        [\<lparr>Category = None, Description = ''misc'', Type = ''Expense'', Amount = 50\<rparr>]
        empty_db)) = [] \<and>
   sum_list (map snd (grouped sum_list (get_transactions 1
     (save_transactions (2024, 1, 5, 9, 30) 1
        [\<lparr>Category = None, Description = ''misc'', Type = ''Expense'', Amount = 50\<rparr>]
        empty_db)))) = 0 \<and>
   expense sum_list (get_transactions 1
     (save_transactions (2024, 1, 5, 9, 30) 1
        [\<lparr>Category = None, Description = ''misc'', Type = ''Expense'', Amount = 50\<rparr>]
        empty_db)) = 50"
  by (simp add: save_transactions_def insert_transactions_def new_row_def assign_Date_def
      empty_db_def get_transactions_def grouped_def groupby_sum_def expense_df_def expense_def
      List.map_filter_def)

lemma daily_expense_keys:
  "daily_expense group_sum df = Some s \<Longrightarrow> sorted (map fst s) \<and> distinct (map fst s)"
  by (auto simp add: daily_expense_def groupby_sum_keys)

text \<open>
  Claim C5 reads the series \<open>daily_expense\<close> as one entry per calendar date. The code
  groups by the parsed \<^verbatim>\<open>date\<close> column, which holds the minute the batch was saved:
  two expense batches saved by one user on 5 January 2024, at 09:30 and at 18:45,
  give two entries for that day, the sum of the one amount 150 and the sum of the one
  amount 80, and no entry for the two amounts together.
\<close>

theorem daily_expense_splits_a_day:
  "daily_expense group_sum (get_transactions 1
     (save_transactions (2024, 1, 5, 18, 45) 1
        [\<lparr>Category = Some ''Food'', Description = ''dinner'', Type = ''Expense'', Amount = 80\<rparr>]
        (save_transactions (2024, 1, 5, 9, 30) 1
           [\<lparr>Category = Some ''Food'', Description = ''lunch'', Type = ''Expense'', Amount = 150\<rparr>]
           empty_db))) =
   Some [((2024, 1, 5, 9, 30), group_sum [150]), ((2024, 1, 5, 18, 45), group_sum [80])] \<and>
   daily_expense sum_list (get_transactions 1
     (save_transactions (2024, 1, 5, 18, 45) 1
        [\<lparr>Category = Some ''Food'', Description = ''dinner'', Type = ''Expense'', Amount = 80\<rparr>]
        (save_transactions (2024, 1, 5, 9, 30) 1
           [\<lparr>Category = Some ''Food'', Description = ''lunch'', Type = ''Expense'', Amount = 150\<rparr>]
           empty_db))) =
   Some [((2024, 1, 5, 9, 30), 150), ((2024, 1, 5, 18, 45), 80)]"
  by code_simp

section \<open>CSV export\<close>

lemma records_plain:
  "CHR 0x22 \<notin> set s \<Longrightarrow> CHR 0x0A \<notin> set s \<Longrightarrow>
   csv_records_from q cur (s @ rest) = csv_records_from q (rev s @ cur) rest"
  by (induction s arbitrary: cur) auto

lemma records_doubled:
  "csv_records_from True cur (double_quotes s @ rest) =
   csv_records_from True (rev (double_quotes s) @ cur) rest"
  by (induction s arbitrary: cur) (simp_all add: double_quotes_def)

lemma needs_quoting_iff:
  "needs_quoting s \<longleftrightarrow>
   CHR '','' \<in> set s \<or> CHR 0x22 \<in> set s \<or> CHR 0x0A \<in> set s \<or> CHR 0x0D \<in> set s"
  by (auto simp add: needs_quoting_def list_ex_iff)

lemma records_field:
  "csv_records_from False cur (quote_field s @ rest) =
   csv_records_from False (rev (quote_field s) @ cur) rest"
proof (cases "needs_quoting s")
  case True
  then show ?thesis
    by (simp add: quote_field_def records_doubled)
next
  case False
  then have "CHR 0x22 \<notin> set s" and "CHR 0x0A \<notin> set s"
    by (simp_all add: needs_quoting_iff)
  then show ?thesis
    using False by (simp add: quote_field_def records_plain)
qed

lemma records_record:
  "csv_records_from False cur (csv_record cells @ rest) =
   csv_records_from False (rev (csv_record cells) @ cur) rest"
  unfolding csv_record_def
proof (induction cells arbitrary: cur)
  case Nil
  then show ?case by simp
next
  case (Cons x cells)
  show ?case
  proof (cases cells)
    case Nil
    then show ?thesis by (simp add: records_field)
  next
    case (Cons y ys)
    have "csv_records_from False cur
            (quote_field x @ CHR '','' # join '','' (map quote_field (y # ys)) @ rest) =
          csv_records_from False (CHR '','' # rev (quote_field x) @ cur)
            (join '','' (map quote_field (y # ys)) @ rest)"
      using records_field [of cur x "CHR '','' # join '','' (map quote_field (y # ys)) @ rest"]
      by simp
    then show ?thesis
      using Cons.IH [of "CHR '','' # rev (quote_field x) @ cur"] Cons
      by simp
  qed
qed

lemma records_line:
  "csv_records_from False [] (csv_record cells @ CHR 0x0A # rest) =
   csv_record cells # csv_records_from False [] rest"
  using records_record [of "[]" cells "CHR 0x0A # rest"] by simp

lemma records_lines:
  "csv_records (concat (map (\<lambda>cells. csv_record cells @ [CHR 0x0A]) rows)) = map csv_record rows"
  unfolding csv_records_def
  by (induction rows) (simp_all add: records_line)

lemma csv_record_columns:
  "csv_record columns = ''id,user_id,date,category,description,type,amount''"
  by (simp add: csv_record_def columns_def quote_field_def needs_quoting_def)

lemma csv_records_to_csv:
  "csv_records (to_csv float_repr df) =
     ''id,user_id,date,category,description,type,amount'' #
     map (\<lambda>t. csv_record (row_fields float_repr t)) df"
  unfolding to_csv_def records_lines
  by (simp add: csv_record_columns comp_def)

lemma to_csv_first_line:
  "takeWhile (\<lambda>c. c \<noteq> CHR 0x0A) (to_csv float_repr df) =
   ''id,user_id,date,category,description,type,amount''"
  by (simp add: to_csv_def csv_record_columns)


lemma those_eq_None_iff: "those xs = None \<longleftrightarrow> None \<in> set xs"
  by (induction xs) (auto split: option.splits)

lemma df_sorted_parses:
  "df_sorted df \<noteq> None \<longleftrightarrow> (\<forall>t \<in> set df. to_datetime (date t) \<noteq> None)"
  by (auto simp add: df_sorted_def those_eq_None_iff image_iff)

text \<open>
  Claim C6, as amended. With no transactions the page builds no CSV and offers no
  download. With at least one, whenever the page reaches the download (drawing the pie
  chart of the totals by type does not raise and every \<^verbatim>\<open>date\<close> parses), the CSV is the
  text of \<open>to_csv\<close>: its first line is the header
  \<^verbatim>\<open>id,user_id,date,category,description,type,amount\<close> (every column of the table), and
  a reader of the dialect finds in it the header and then exactly one record for each
  transaction, in order, whatever the text fields hold.
\<close>

theorem csv_download_header_and_rows:
  "(df = [] \<longrightarrow> csv_download pie_raises group_sum float_repr df = Inr None) \<and>
   (df \<noteq> [] \<and> \<not> pie_raises (map snd (totals group_sum df)) \<and>
    (\<forall>t \<in> set df. to_datetime (date t) \<noteq> None) \<longrightarrow>
      csv_download pie_raises group_sum float_repr df = Inr (Some (to_csv float_repr df)) \<and>
      takeWhile (\<lambda>c. c \<noteq> CHR 0x0A) (to_csv float_repr df) =
        ''id,user_id,date,category,description,type,amount'' \<and>
      csv_records (to_csv float_repr df) =
        ''id,user_id,date,category,description,type,amount'' #
        map (\<lambda>t. csv_record (row_fields float_repr t)) df \<and>
      length (csv_records (to_csv float_repr df)) = Suc (length df))"
proof (intro conjI impI)
  assume "df = []"
  then show "csv_download pie_raises group_sum float_repr df = Inr None"
    by (simp add: csv_download_def)
next
  assume ok: "df \<noteq> [] \<and> \<not> pie_raises (map snd (totals group_sum df)) \<and>
    (\<forall>t \<in> set df. to_datetime (date t) \<noteq> None)"
  then have "df_sorted df \<noteq> None"
    using df_sorted_parses [of df] by blast
  with ok show "csv_download pie_raises group_sum float_repr df =
      Inr (Some (to_csv float_repr df))"
    by (simp add: csv_download_def)
next
  show "takeWhile (\<lambda>c. c \<noteq> CHR 0x0A) (to_csv float_repr df) =
        ''id,user_id,date,category,description,type,amount''"
    by (rule to_csv_first_line)
next
  show "csv_records (to_csv float_repr df) =
        ''id,user_id,date,category,description,type,amount'' #
        map (\<lambda>t. csv_record (row_fields float_repr t)) df"
    by (rule csv_records_to_csv)
next
  show "length (csv_records (to_csv float_repr df)) = Suc (length df)"
    by (simp add: csv_records_to_csv)
qed

lemma to_datetime_example: "to_datetime ''2024-01-05 09:30'' = Some (2024, 1, 5, 9, 30)"
  by (simp add: to_datetime_def digit_val_def days_in_month_def)

theorem csv_download_header_and_rows_witness:
  "csv_download (\<lambda>x. list_ex (\<lambda>v. v < 0) x \<or> list_all (\<lambda>v. v = 0) x) sum_list (\<lambda>x. ''150.0'')
     [\<lparr>transactions_id = 1, user_id = 1, date = ''2024-01-05 09:30'', category = Some ''Food'',
       description = ''rice, dal'', type = ''Expense'', amount = 150\<rparr>] =
     Inr (Some (to_csv (\<lambda>x. ''150.0'')
        [\<lparr>transactions_id = 1, user_id = 1, date = ''2024-01-05 09:30'', category = Some ''Food'',
          description = ''rice, dal'', type = ''Expense'', amount = 150\<rparr>])) \<and>
   takeWhile (\<lambda>c. c \<noteq> CHR 0x0A)
     (to_csv (\<lambda>x. ''150.0'')
        [\<lparr>transactions_id = 1, user_id = 1, date = ''2024-01-05 09:30'', category = Some ''Food'',
          description = ''rice, dal'', type = ''Expense'', amount = 150\<rparr>]) =
     ''id,user_id,date,category,description,type,amount'' \<and>
   csv_records
     (to_csv (\<lambda>x. ''150.0'')
        [\<lparr>transactions_id = 1, user_id = 1, date = ''2024-01-05 09:30'', category = Some ''Food'',
          description = ''rice, dal'', type = ''Expense'', amount = 150\<rparr>]) =
     [''id,user_id,date,category,description,type,amount'',
      ''1,1,2024-01-05 09:30,Food,'' @ [CHR 0x22] @ ''rice, dal'' @ [CHR 0x22] @
      '',Expense,150.0'']"
proof -
  let ?df = "[\<lparr>transactions_id = 1, user_id = 1, date = ''2024-01-05 09:30'',
       category = Some ''Food'', description = ''rice, dal'', type = ''Expense'',
       amount = 150\<rparr>]"
  let ?pie = "\<lambda>x. list_ex (\<lambda>v. v < 0) x \<or> list_all (\<lambda>v. v = (0::real)) x"
  have nonempty: "?df \<noteq> []"
    by simp
  have pie: "\<not> ?pie (map snd (totals sum_list ?df))"
    by (simp add: totals_def groupby_sum_def List.map_filter_def)
  have dates: "\<forall>t \<in> set ?df. to_datetime (date t) \<noteq> None"
    by (simp add: to_datetime_example)
  from csv_download_header_and_rows [of ?df ?pie sum_list "\<lambda>x. ''150.0''"] nonempty pie dates
  have "csv_download ?pie sum_list (\<lambda>x. ''150.0'') ?df =
          Inr (Some (to_csv (\<lambda>x. ''150.0'') ?df)) \<and>
        takeWhile (\<lambda>c. c \<noteq> CHR 0x0A) (to_csv (\<lambda>x. ''150.0'') ?df) =
          ''id,user_id,date,category,description,type,amount'' \<and>
        csv_records (to_csv (\<lambda>x. ''150.0'') ?df) =
          ''id,user_id,date,category,description,type,amount'' #
          map (\<lambda>t. csv_record (row_fields (\<lambda>x. ''150.0'') t)) ?df"
    by blast
  then show ?thesis
    by (simp add: csv_record_def row_fields_def quote_field_def needs_quoting_def
        double_quotes_def str_nat.simps)
qed

text \<open>
  Claim C6 as stated fails twice: with zero transactions no file is produced, not a
  file of one header line, and the first line of the export of one transaction is not
  \<^verbatim>\<open>date,category,description,type,amount\<close>.
\<close>

theorem csv_download_other_header_and_no_empty_file:
  "csv_download (\<lambda>x. list_ex (\<lambda>v. v < 0) x \<or> list_all (\<lambda>v. v = 0) x) sum_list (\<lambda>x. ''150.0'')
     [] = Inr None \<and>
   csv_download (\<lambda>x. list_ex (\<lambda>v. v < 0) x \<or> list_all (\<lambda>v. v = 0) x) sum_list (\<lambda>x. ''150.0'')
     [\<lparr>transactions_id = 1, user_id = 1, date = ''2024-01-05 09:30'', category = Some ''Food'',
       description = ''lunch'', type = ''Expense'', amount = 150\<rparr>] =
     Inr (Some (to_csv (\<lambda>x. ''150.0'')
        [\<lparr>transactions_id = 1, user_id = 1, date = ''2024-01-05 09:30'', category = Some ''Food'',
          description = ''lunch'', type = ''Expense'', amount = 150\<rparr>])) \<and>
   takeWhile (\<lambda>c. c \<noteq> CHR 0x0A)
     (to_csv (\<lambda>x. ''150.0'')
        [\<lparr>transactions_id = 1, user_id = 1, date = ''2024-01-05 09:30'', category = Some ''Food'',
          description = ''lunch'', type = ''Expense'', amount = 150\<rparr>]) \<noteq>
     ''date,category,description,type,amount''"
  by (simp add: csv_download_def to_csv_first_line totals_def groupby_sum_def
      List.map_filter_def df_sorted_def to_datetime_example)

end
